theory Spec2Isabelle
  imports Complex_Main
begin

section \<open>Python values\<close>

text \<open>
  The module \<^verbatim>\<open>src/tools/health_insights.py\<close> computes on Python numbers (\<^verbatim>\<open>int\<close> and
  \<^verbatim>\<open>float\<close>). A metric value is the \<^typ>\<open>real\<close> number it denotes: Python compares an
  \<^verbatim>\<open>int\<close> with a \<^verbatim>\<open>float\<close> by value, and every comparison of a metric with a threshold
  is exact. A decimal literal such as \<^verbatim>\<open>36.1\<close> is the rational \<open>361 / 10\<close>.
  A cell of a pandas column is a \<^typ>\<open>real option\<close>, \<open>None\<close> being the missing value
  (\<^verbatim>\<open>NaN\<close>). A metrics \<^verbatim>\<open>Dict\<close> is an association list in insertion order, read with
  \<^const>\<open>map_of\<close>.

  The one place where the module computes a new number from metrics is the BMI,
  \<^verbatim>\<open>metrics['weight'] / (metrics['height'] ** 2)\<close>. On floats both operations round, the
  power raises \<^verbatim>\<open>OverflowError\<close> when its result is out of range, and the division raises
  \<^verbatim>\<open>ZeroDivisionError\<close> when the square is zero, also when it has underflowed to zero.
  What the two operations return on given numbers is fixed by Python and the
  platform, not by the module: they are a parameter of the model, a
  \<open>float_arith\<close>, and every theorem about the BMI holds for every such parameter.
  Their result is a \<open>py_float\<close>: a number, an infinity or \<^verbatim>\<open>NaN\<close>.
\<close>

datatype py_error = ZeroDivisionError | OverflowError

datatype py_float = Finite real | PosInf | NegInf | NaN

fun float_ge :: "py_float \<Rightarrow> real \<Rightarrow> bool" where
  \<comment> \<open>\<^verbatim>\<open>a >= c\<close> for a number \<open>c\<close>; every comparison with \<^verbatim>\<open>NaN\<close> is false\<close>
  "float_ge (Finite a) c = (a \<ge> c)"
| "float_ge PosInf c = True"
| "float_ge NegInf c = False"
| "float_ge NaN c = False"

fun float_lt :: "py_float \<Rightarrow> real \<Rightarrow> bool" where
  \<comment> \<open>\<^verbatim>\<open>a < c\<close> for a number \<open>c\<close>\<close>
  "float_lt (Finite a) c = (a < c)"
| "float_lt PosInf c = False"
| "float_lt NegInf c = True"
| "float_lt NaN c = False"

record float_arith =
  pow2 :: "real \<Rightarrow> py_error + py_float"
  truediv :: "real \<Rightarrow> py_float \<Rightarrow> py_error + py_float"

text \<open>
  \<open>pow2 A x\<close> is what \<^verbatim>\<open>x ** 2\<close> evaluates to and \<open>truediv A a b\<close> what \<^verbatim>\<open>a / b\<close>
  evaluates to, each a value or the exception raised. The arithmetic without rounding
  and without range limits is one such parameter; Python's agrees with it wherever the
  exact results are representable, as for a height of 2 and a weight of 120.
\<close>

definition exact_arith :: float_arith where
  "exact_arith =
     \<lparr>pow2 = (\<lambda>x. Inr (Finite (x * x))),
      truediv = (\<lambda>a b. case b of
                   Finite y \<Rightarrow> if y = 0 then Inl ZeroDivisionError else Inr (Finite (a / y))
                 | PosInf \<Rightarrow> Inr (Finite 0)
                 | NegInf \<Rightarrow> Inr (Finite 0)
                 | NaN \<Rightarrow> Inr NaN)\<rparr>"

type_synonym metrics = "(string \<times> real) list"

definition get :: "metrics \<Rightarrow> string \<Rightarrow> real \<Rightarrow> real" where
  \<comment> \<open>\<^verbatim>\<open>metrics.get(key, default)\<close>\<close>
  "get m key dflt = (case map_of m key of None \<Rightarrow> dflt | Some v \<Rightarrow> v)"

fun next_key :: "(string \<times> bool) list \<Rightarrow> string \<Rightarrow> string" where
  \<comment> \<open>\<^verbatim>\<open>next((k for k, v in items if v), default)\<close>\<close>
  "next_key [] dflt = dflt"
| "next_key ((k, v) # items) dflt = (if v then k else next_key items dflt)"


section \<open>Vital-sign classification\<close>

record category_result =
  category :: string
  needs_attention :: bool

record bp_result = category_result +
  systolic :: real
  diastolic :: real

record value_result = category_result +
  val :: real

definition categories :: "real \<Rightarrow> real \<Rightarrow> (string \<times> bool) list" where
  \<comment> \<open>the \<^verbatim>\<open>categories\<close> dict of \<^verbatim>\<open>_analyze_blood_pressure\<close>, in insertion order\<close>
  "categories sys dia =
     [(''normal'', sys < 120 \<and> dia < 80),
      (''elevated'', (120 \<le> sys \<and> sys \<le> 129) \<and> dia < 80),
      (''stage1'', (130 \<le> sys \<and> sys \<le> 139) \<or> (80 \<le> dia \<and> dia \<le> 89)),
      (''stage2'', sys \<ge> 140 \<or> dia \<ge> 90),
      (''crisis'', sys > 180 \<or> dia > 120)]"

definition analyze_blood_pressure :: "real \<Rightarrow> real \<Rightarrow> bp_result" where
  "analyze_blood_pressure sys dia =
     (let cat = next_key (categories sys dia) ''unknown''
      in \<lparr>category = cat,
          needs_attention = (cat \<in> set [''stage2'', ''crisis'']),
          systolic = sys,
          diastolic = dia\<rparr>)"

definition analyze_heart_rate :: "real \<Rightarrow> value_result" where
  "analyze_heart_rate hr =
     \<lparr>category = (if 60 \<le> hr \<and> hr \<le> 100 then ''normal'' else ''abnormal''),
      needs_attention = (hr < 60 \<or> hr > 100),
      val = hr\<rparr>"

definition analyze_temperature :: "real \<Rightarrow> value_result" where
  "analyze_temperature t =
     \<lparr>category = (if 361 / 10 \<le> t \<and> t \<le> 372 / 10 then ''normal'' else ''abnormal''),
      needs_attention = (t > 38),
      val = t\<rparr>"


section \<open>Risk factors\<close>

datatype rf_value = Number py_float | Ratio real real
  \<comment> \<open>the \<^verbatim>\<open>value\<close> of a risk factor: the computed BMI, or the two readings that the
      source formats as \<^verbatim>\<open>f"{systolic}/{diastolic}"\<close>\<close>

record risk_factor =
  factor :: string
  rf_value :: rf_value
  rf_category :: string
  priority :: string

definition bmi_of :: "float_arith \<Rightarrow> real \<Rightarrow> real \<Rightarrow> py_error + py_float" where
  \<comment> \<open>\<^verbatim>\<open>weight / (height ** 2)\<close>: the power first, then the division\<close>
  "bmi_of A weight height =
     (case pow2 A height of
        Inl e \<Rightarrow> Inl e
      | Inr sq \<Rightarrow> truediv A weight sq)"

definition check_bmi ::
  "float_arith \<Rightarrow> metrics \<Rightarrow> risk_factor list \<Rightarrow> py_error + risk_factor list" where
  \<comment> \<open>the block \<^verbatim>\<open># Check BMI\<close> of \<^verbatim>\<open>_identify_risk_factors\<close>\<close>
  "check_bmi A m acc =
     (case (map_of m ''height'', map_of m ''weight'') of
        (Some height, Some weight) \<Rightarrow>
          (case bmi_of A weight height of
             Inl e \<Rightarrow> Inl e
           | Inr bmi \<Rightarrow>
               Inr (if float_ge bmi 25
                    then acc @ [\<lparr>factor = ''BMI'',
                                 rf_value = Number bmi,
                                 rf_category =
                                   (if float_lt bmi 30 then ''overweight'' else ''obese''),
                                 priority =
                                   (if float_lt bmi 30 then ''medium'' else ''high'')\<rparr>]
                    else acc))
      | _ \<Rightarrow> Inr acc)"

definition check_blood_pressure :: "metrics \<Rightarrow> risk_factor list \<Rightarrow> risk_factor list" where
  \<comment> \<open>the block \<^verbatim>\<open># Check blood pressure\<close> of \<^verbatim>\<open>_identify_risk_factors\<close>\<close>
  "check_blood_pressure m acc =
     (case (map_of m ''systolic'', map_of m ''diastolic'') of
        (Some sys, Some dia) \<Rightarrow>
          (let bp_analysis = analyze_blood_pressure sys dia
           in if category bp_analysis \<in> set [''stage1'', ''stage2'', ''crisis'']
              then acc @ [\<lparr>factor = ''Blood Pressure'',
                           rf_value = Ratio sys dia,
                           rf_category = category bp_analysis,
                           priority = (if needs_attention bp_analysis
                                       then ''high'' else ''medium'')\<rparr>]
              else acc)
      | _ \<Rightarrow> acc)"

definition identify_risk_factors :: "float_arith \<Rightarrow> metrics \<Rightarrow> py_error + risk_factor list" where
  "identify_risk_factors A m =
     (case check_bmi A m [] of
        Inl e \<Rightarrow> Inl e
      | Inr acc \<Rightarrow> Inr (check_blood_pressure m acc))"


section \<open>Trends\<close>

text \<open>
  A pandas \<^verbatim>\<open>DataFrame\<close> is its number of rows and its columns in order, each column
  holding one cell per row. \<^verbatim>\<open>pd.DataFrame(rows)\<close> on a list of dicts has one row per
  dict, one column per key in order of first appearance, and a missing cell wherever a
  dict lacks the key. All metric values are numbers, so \<^verbatim>\<open>select_dtypes\<close> keeps every
  column.
\<close>

record dataframe =
  index_len :: nat
  data :: "(string \<times> real option list) list"

definition keys_in_order :: "metrics list \<Rightarrow> string list" where
  "keys_in_order rows =
     fold (\<lambda>k acc. if k \<in> set acc then acc else acc @ [k]) (concat (map (map fst) rows)) []"

definition DataFrame :: "metrics list \<Rightarrow> dataframe" where
  "DataFrame rows =
     \<lparr>index_len = length rows,
      data = map (\<lambda>c. (c, map (\<lambda>row. map_of row c) rows)) (keys_in_order rows)\<rparr>"

definition dropna :: "real option list \<Rightarrow> real option list" where
  "dropna cells = filter (\<lambda>v. v \<noteq> None) cells"

definition lstsq_slope :: "real list \<Rightarrow> real list \<Rightarrow> real" where
  \<comment> \<open>the slope that solves the normal equations of the line fit\<close>
  "lstsq_slope xs ys =
     (let n = real (length xs);
          sx = sum_list xs;
          sy = sum_list ys;
          sxx = sum_list (map (\<lambda>x. x * x) xs);
          sxy = sum_list (map2 (*) xs ys)
      in (n * sxy - sx * sy) / (n * sxx - sx * sx))"

definition lstsq_intercept :: "real list \<Rightarrow> real list \<Rightarrow> real" where
  "lstsq_intercept xs ys = (sum_list ys - lstsq_slope xs ys * sum_list xs) / real (length xs)"

definition sse :: "real \<Rightarrow> real \<Rightarrow> real list \<Rightarrow> real list \<Rightarrow> real" where
  \<comment> \<open>the sum of the squared residuals of the line \<open>y = a * x + b\<close>\<close>
  "sse a b xs ys = sum_list (map2 (\<lambda>x y. (y - (a * x + b)) ^ 2) xs ys)"

text \<open>
  Modelled from the spec: \<^verbatim>\<open>np.polyfit(x, y, 1)[0]\<close> belongs to numpy and is not under
  \<^verbatim>\<open>src/\<close>. The spec has it fit a degree-1 least-squares line against the index
  positions and return the fitted slope; the model computes that slope in exact
  arithmetic. numpy works in floating point, where a \<^verbatim>\<open>NaN\<close> among the values makes
  every fitted coefficient \<^verbatim>\<open>NaN\<close>: the model returns \<open>None\<close> then.
\<close>

definition polyfit_slope :: "real list \<Rightarrow> real option list \<Rightarrow> real option" where
  "polyfit_slope xs cells =
     (case those cells of
        None \<Rightarrow> None
      | Some ys \<Rightarrow> Some (lstsq_slope xs ys))"

fun float_gt :: "real option \<Rightarrow> real \<Rightarrow> bool" where
  \<comment> \<open>\<^verbatim>\<open>a > c\<close> on a float that may be \<^verbatim>\<open>NaN\<close>: every comparison with \<^verbatim>\<open>NaN\<close> is false\<close>
  "float_gt None c = False"
| "float_gt (Some a) c = (a > c)"

record trend_entry =
  trend :: string
  slope :: "real option"

datatype trends_result =
    ErrorMarker string
  | PerMetric "string \<rightharpoonup> trend_entry"

fun trends_loop ::
  "real list \<Rightarrow> (string \<times> real option list) list \<Rightarrow> (string \<rightharpoonup> trend_entry)
   \<Rightarrow> (string \<rightharpoonup> trend_entry)" where
  "trends_loop xs [] acc = acc"
| "trends_loop xs ((column, cells) # cols) acc =
     trends_loop xs cols
       (if length (dropna cells) \<ge> 2
        then (let sl = polyfit_slope xs cells
              in acc(column \<mapsto>
                   \<lparr>trend = (if float_gt sl 0 then ''increasing'' else ''decreasing''),
                    slope = sl\<rparr>))
        else acc)"

definition calculate_trends :: "dataframe \<Rightarrow> trends_result" where
  "calculate_trends df =
     (if index_len df < 2
      then ErrorMarker ''Insufficient data for trend analysis''
      else PerMetric (trends_loop (map real [0..<index_len df]) (data df) Map.empty))"


section \<open>The public operation\<close>

record vital_signs_result =
  blood_pressure :: bp_result
  heart_rate :: value_result
  temperature :: value_result

record stats =
  vital_signs :: vital_signs_result
  trends :: trends_result
  risk_factors :: "risk_factor list"

definition analyze_health_metrics :: "float_arith \<Rightarrow> metrics \<Rightarrow> py_error + stats" where
  \<comment> \<open>the dict literal is evaluated in order; only \<^verbatim>\<open>_identify_risk_factors\<close> can raise\<close>
  "analyze_health_metrics A m =
     (let df = DataFrame [m];
          vs = \<lparr>blood_pressure =
                  analyze_blood_pressure (get m ''systolic'' 0) (get m ''diastolic'' 0),
                heart_rate = analyze_heart_rate (get m ''heart_rate'' 0),
                temperature = analyze_temperature (get m ''temperature'' 0)\<rparr>;
          tr = calculate_trends df
      in case identify_risk_factors A m of
           Inl e \<Rightarrow> Inl e
         | Inr rfs \<Rightarrow> Inr \<lparr>vital_signs = vs, trends = tr, risk_factors = rfs\<rparr>)"


section \<open>Blood pressure\<close>

lemma category_analyze_blood_pressure:
  "category (analyze_blood_pressure sys dia) =
     (if sys < 120 \<and> dia < 80 then ''normal''
      else if 120 \<le> sys \<and> sys \<le> 129 \<and> dia < 80 then ''elevated''
      else if (130 \<le> sys \<and> sys \<le> 139) \<or> (80 \<le> dia \<and> dia \<le> 89) then ''stage1''
      else if sys \<ge> 140 \<or> dia \<ge> 90 then ''stage2''
      else if sys > 180 \<or> dia > 120 then ''crisis''
      else ''unknown'')"
  by (simp add: analyze_blood_pressure_def categories_def Let_def)

lemma needs_attention_analyze_blood_pressure:
  "needs_attention (analyze_blood_pressure sys dia) =
     (category (analyze_blood_pressure sys dia) = ''stage2''
      \<or> category (analyze_blood_pressure sys dia) = ''crisis'')"
  by (simp add: analyze_blood_pressure_def Let_def)


text \<open>
  Claim C1, as amended. A reading in the crisis range (systolic above 180 or diastolic
  above 120) is never reported as \<open>crisis\<close>: the first rule that holds wins, so it is
  reported as \<open>stage1\<close> when the \<open>stage1\<close> rule holds (systolic from 130 to 139, or
  diastolic from 80 to 89) and as \<open>stage2\<close> otherwise. The reading 190 over 70 is
  \<open>stage2\<close> and needs attention.
\<close>

theorem crisis_range_is_stage1_or_stage2:
  assumes "sys > 180 \<or> dia > 120"
  shows "category (analyze_blood_pressure sys dia) =
           (if (130 \<le> sys \<and> sys \<le> 139) \<or> (80 \<le> dia \<and> dia \<le> 89)
            then ''stage1'' else ''stage2'')
         \<and> category (analyze_blood_pressure sys dia) \<noteq> ''crisis''
         \<and> category (analyze_blood_pressure 190 70) = ''stage2''
         \<and> needs_attention (analyze_blood_pressure 190 70)"
proof -
  have "category (analyze_blood_pressure sys dia) =
          (if (130 \<le> sys \<and> sys \<le> 139) \<or> (80 \<le> dia \<and> dia \<le> 89)
           then ''stage1'' else ''stage2'')"
    using assms by (auto simp: category_analyze_blood_pressure)
  moreover have "category (analyze_blood_pressure 190 70) = ''stage2''"
    by (simp add: category_analyze_blood_pressure)
  moreover from this have "needs_attention (analyze_blood_pressure 190 70)"
    by (simp add: needs_attention_analyze_blood_pressure)
  ultimately show ?thesis by simp
qed

theorem crisis_range_is_stage1_or_stage2_witness:
  "((190::real) > 180 \<or> (70::real) > 120)
   \<and> category (analyze_blood_pressure 190 70) = ''stage2''
   \<and> category (analyze_blood_pressure 190 70) \<noteq> ''crisis''
   \<and> needs_attention (analyze_blood_pressure 190 70)"
  using crisis_range_is_stage1_or_stage2 [of 190 70] by simp

text \<open>
  The claim C1 as first stated (every crisis-range reading is \<open>stage2\<close>) fails at
  190 over 85: the \<open>stage1\<close> rule holds on the diastolic value and is tried first.
\<close>

theorem crisis_range_stage2_counterexample:
  "\<not> ((190::real) > 180 \<or> (85::real) > 120
      \<longrightarrow> category (analyze_blood_pressure 190 85) = ''stage2'')"
  by (simp add: category_analyze_blood_pressure)

lemma no_unknown_on_integer_readings:
  "category (analyze_blood_pressure (of_int s) (of_int d)) \<noteq> ''unknown''"
  unfolding category_analyze_blood_pressure by simp

text \<open>
  Claim C3, at a reading between two integers. The rules are written with integer
  bounds: \<open>elevated\<close> ends at 129 and \<open>stage1\<close> starts at 130, \<open>stage1\<close> ends at 139
  and 89 and \<open>stage2\<close> starts at 140 and 90. The parameters are floats, and a reading
  of 129.5 over 70, which is not negative, satisfies no rule: the result is the
  fallback \<open>unknown\<close>, without needing attention. On integer readings the rules do
  cover every case, as the lemma above shows.
\<close>

theorem unknown_at_gap_reading:
  "(0::real) \<le> 259 / 2 \<and> (0::real) \<le> 70
   \<and> category (analyze_blood_pressure (259 / 2) 70) = ''unknown''
   \<and> \<not> needs_attention (analyze_blood_pressure (259 / 2) 70)"
  by (simp add: category_analyze_blood_pressure needs_attention_analyze_blood_pressure)

text \<open>
  Claim C8. A reading with systolic below 120 and diastolic below 80 is \<open>normal\<close> and
  does not need attention; and for every reading, \<open>needs_attention\<close> is true exactly
  when the returned category is \<open>stage2\<close> or \<open>crisis\<close>.
\<close>

theorem normal_range_and_attention:
  "(sys < 120 \<and> dia < 80
      \<longrightarrow> category (analyze_blood_pressure sys dia) = ''normal''
        \<and> \<not> needs_attention (analyze_blood_pressure sys dia))
   \<and> (needs_attention (analyze_blood_pressure s d) \<longleftrightarrow>
        category (analyze_blood_pressure s d) = ''stage2''
        \<or> category (analyze_blood_pressure s d) = ''crisis'')"
proof (intro conjI impI)
  assume a: "sys < 120 \<and> dia < 80"
  then show "category (analyze_blood_pressure sys dia) = ''normal''"
    by (simp add: category_analyze_blood_pressure)
  then show "\<not> needs_attention (analyze_blood_pressure sys dia)"
    by (simp add: needs_attention_analyze_blood_pressure)
next
  show "needs_attention (analyze_blood_pressure s d) \<longleftrightarrow>
        category (analyze_blood_pressure s d) = ''stage2''
        \<or> category (analyze_blood_pressure s d) = ''crisis''"
    by (rule needs_attention_analyze_blood_pressure)
qed

theorem normal_range_and_attention_witness:
  "((110::real) < 120 \<and> (70::real) < 80)
   \<and> category (analyze_blood_pressure 110 70) = ''normal''
   \<and> \<not> needs_attention (analyze_blood_pressure 110 70)
   \<and> needs_attention (analyze_blood_pressure 150 70)
   \<and> category (analyze_blood_pressure 150 70) = ''stage2''"
proof -
  have "category (analyze_blood_pressure 150 70) = ''stage2''"
    by (simp add: category_analyze_blood_pressure)
  then show ?thesis
    using normal_range_and_attention [of 110 70 150 70] by simp
qed


section \<open>Heart rate and temperature\<close>

text \<open>
  Claim C9. For every heart rate, the category is \<open>normal\<close> exactly when the rate is
  between 60 and 100 (bounds included) and \<open>abnormal\<close> otherwise; \<open>needs_attention\<close>
  is true exactly when the rate is below 60 or above 100, which is exactly when the
  category is \<open>abnormal\<close>. A rate of 45 is abnormal and needs attention, a rate of 80
  is normal and does not.
\<close>

theorem heart_rate_bands:
  "(category (analyze_heart_rate bpm) = ''normal'' \<longleftrightarrow> 60 \<le> bpm \<and> bpm \<le> 100)
   \<and> (category (analyze_heart_rate bpm) = ''abnormal'' \<longleftrightarrow> \<not> (60 \<le> bpm \<and> bpm \<le> 100))
   \<and> (needs_attention (analyze_heart_rate bpm) \<longleftrightarrow> bpm < 60 \<or> bpm > 100)
   \<and> (needs_attention (analyze_heart_rate bpm) \<longleftrightarrow>
        category (analyze_heart_rate bpm) = ''abnormal'')
   \<and> category (analyze_heart_rate 45) = ''abnormal''
   \<and> needs_attention (analyze_heart_rate 45)
   \<and> category (analyze_heart_rate 80) = ''normal''
   \<and> \<not> needs_attention (analyze_heart_rate 80)"
  by (auto simp: analyze_heart_rate_def)

theorem heart_rate_bands_witness:
  "category (analyze_heart_rate 100) = ''normal''
   \<and> \<not> needs_attention (analyze_heart_rate 100)
   \<and> category (analyze_heart_rate 101) = ''abnormal''
   \<and> needs_attention (analyze_heart_rate 101)"
  using heart_rate_bands [of 100] heart_rate_bands [of 101] by simp

text \<open>
  Claim C5. For every temperature, the category is \<open>normal\<close> exactly when the value is
  between 36.1 and 37.2 (bounds included) and \<open>abnormal\<close> otherwise, and
  \<open>needs_attention\<close> is true exactly when the value is above 38.0. The two thresholds
  are independent: every value above 37.2 and up to 38.0, such as 37.5, is \<open>abnormal\<close>
  without needing attention.
\<close>

theorem temperature_bands:
  "(category (analyze_temperature celsius) = ''normal'' \<longleftrightarrow>
        361 / 10 \<le> celsius \<and> celsius \<le> 372 / 10)
   \<and> (category (analyze_temperature celsius) = ''abnormal'' \<longleftrightarrow>
        \<not> (361 / 10 \<le> celsius \<and> celsius \<le> 372 / 10))
   \<and> (needs_attention (analyze_temperature celsius) \<longleftrightarrow> celsius > 38)
   \<and> (372 / 10 < celsius \<and> celsius \<le> 38
        \<longrightarrow> category (analyze_temperature celsius) = ''abnormal''
          \<and> \<not> needs_attention (analyze_temperature celsius))"
  by (auto simp: analyze_temperature_def)

theorem temperature_bands_witness:
  "(372 / 10 < (375 / 10 :: real) \<and> (375 / 10 :: real) \<le> 38)
   \<and> category (analyze_temperature (375 / 10)) = ''abnormal''
   \<and> \<not> needs_attention (analyze_temperature (375 / 10))"
  using temperature_bands [of "375 / 10"] by simp

section \<open>Risk factors and the public operation\<close>
















section \<open>Trends\<close>

text \<open>
  Claim C7. A data frame with fewer than two rows, and so every history with fewer
  than two entries, yields the insufficient-data marker and no per-metric result.
  The marker is an ordinary return value: \<open>calculate_trends\<close> has no error result.
\<close>

theorem insufficient_history_marker:
  "(index_len df < 2 \<longrightarrow>
      calculate_trends df = ErrorMarker ''Insufficient data for trend analysis'')
   \<and> (length history < 2 \<longrightarrow>
      calculate_trends (DataFrame history) = ErrorMarker ''Insufficient data for trend analysis'')"
  by (simp add: calculate_trends_def DataFrame_def)

theorem insufficient_history_marker_witness:
  "length [[(''hr'', 60::real)]] < 2
   \<and> calculate_trends (DataFrame [[(''hr'', 60)]]) = ErrorMarker ''Insufficient data for trend analysis''
   \<and> calculate_trends (DataFrame []) = ErrorMarker ''Insufficient data for trend analysis''"
  using insufficient_history_marker [of "DataFrame []" "[[(''hr'', 60)]]"] by (simp add: DataFrame_def)

text \<open>
  Claim C2. \<open>analyze_health_metrics\<close> builds its data frame from the single metrics
  mapping, so the frame has one row: the trends it computes are the insufficient-data
  marker, for every mapping, and the \<open>trends\<close> field of every result it returns is
  that marker and never a per-metric mapping.
\<close>

theorem single_snapshot_trends_insufficient:
  "calculate_trends (DataFrame [m]) = ErrorMarker ''Insufficient data for trend analysis''
   \<and> (\<forall>r. analyze_health_metrics A m = Inr r \<longrightarrow>
         trends r = ErrorMarker ''Insufficient data for trend analysis''
         \<and> (\<forall>f. trends r \<noteq> PerMetric f))"
  by (auto simp: analyze_health_metrics_def calculate_trends_def DataFrame_def Let_def
           split: sum.splits)

theorem single_snapshot_trends_insufficient_witness:
  "\<exists>r. analyze_health_metrics exact_arith
          [(''heart_rate'', 72), (''systolic'', 118), (''diastolic'', 76)] = Inr r
       \<and> trends r = ErrorMarker ''Insufficient data for trend analysis''"
proof -
  obtain r where r: "analyze_health_metrics exact_arith
      [(''heart_rate'', 72), (''systolic'', 118), (''diastolic'', 76)] = Inr r"
    by (simp add: analyze_health_metrics_def identify_risk_factors_def check_bmi_def
          check_blood_pressure_def category_analyze_blood_pressure Let_def)
  with single_snapshot_trends_insufficient
         [of "[(''heart_rate'', 72), (''systolic'', 118), (''diastolic'', 76)]" exact_arith]
  show ?thesis by blast
qed


subsection \<open>The fitted slope\<close>

lemma those_map_Some: "those (map Some ys) = Some ys"
  by (induction ys) simp_all

lemma sum_list_range:
  "sum_list (map real [0..<n]) = real n * (real n - 1) / 2"
  by (induction n) (simp_all add: field_simps)

lemma sum_list_range_squares:
  "sum_list (map (\<lambda>x. x * x) (map real [0..<n])) =
     (real n - 1) * real n * (2 * real n - 1) / 6"
  by (induction n) (simp_all add: field_simps)

lemma range_determinant:
  "real n * sum_list (map (\<lambda>x. x * x) (map real [0..<n]))
     - sum_list (map real [0..<n]) * sum_list (map real [0..<n])
   = (real n)\<^sup>2 * ((real n)\<^sup>2 - 1) / 12"
  unfolding sum_list_range sum_list_range_squares
  by (simp add: field_simps power2_eq_square)

lemma range_determinant_pos:
  assumes "2 \<le> n"
  shows "0 < real n * sum_list (map (\<lambda>x. x * x) (map real [0..<n]))
     - sum_list (map real [0..<n]) * sum_list (map real [0..<n])"
proof -
  from assms have "2 \<le> real n" by simp
  then have "2 * 2 \<le> real n * real n"
    by (intro mult_mono) simp_all
  then have "1 < (real n)\<^sup>2"
    by (simp add: power2_eq_square)
  moreover have "0 < (real n)\<^sup>2" using assms by simp
  ultimately show ?thesis
    unfolding range_determinant by simp
qed

lemma sse_expand:
  assumes "length xs = length ys"
  shows "sse a b xs ys =
     sum_list (map (\<lambda>y. y * y) ys) - 2 * a * sum_list (map2 (*) xs ys)
     - 2 * b * sum_list ys + a * a * sum_list (map (\<lambda>x. x * x) xs)
     + 2 * a * b * sum_list xs + real (length xs) * b * b"
  using assms
  by (induction xs ys rule: list_induct2)
     (simp_all add: sse_def algebra_simps power2_eq_square)

lemma quadratic_minimum:
  fixes n sx sy sxx sxy syy a b a0 b0 :: real
  assumes e1: "a0 * sxx + b0 * sx = sxy"
    and e2: "a0 * sx + n * b0 = sy"
    and n: "0 < n"
    and d: "0 \<le> n * sxx - sx * sx"
  shows "syy - 2 * a0 * sxy - 2 * b0 * sy + a0 * a0 * sxx + 2 * a0 * b0 * sx + n * b0 * b0
       \<le> syy - 2 * a * sxy - 2 * b * sy + a * a * sxx + 2 * a * b * sx + n * b * b"
proof -
  let ?q = "sxx * (a - a0)\<^sup>2 + 2 * sx * (a - a0) * (b - b0) + n * (b - b0)\<^sup>2"
  have diff: "(syy - 2 * a * sxy - 2 * b * sy + a * a * sxx + 2 * a * b * sx + n * b * b)
      - (syy - 2 * a0 * sxy - 2 * b0 * sy + a0 * a0 * sxx + 2 * a0 * b0 * sx + n * b0 * b0)
      = ?q"
    unfolding e1 [symmetric] e2 [symmetric]
    by (simp add: algebra_simps power2_eq_square)
  have "n * ?q = (n * (b - b0) + sx * (a - a0))\<^sup>2 + (n * sxx - sx * sx) * (a - a0)\<^sup>2"
    by (simp add: algebra_simps power2_eq_square)
  moreover have "0 \<le> (n * (b - b0) + sx * (a - a0))\<^sup>2 + (n * sxx - sx * sx) * (a - a0)\<^sup>2"
    using d by simp
  ultimately have "0 \<le> n * ?q" by simp
  with n have "0 \<le> ?q" by (simp add: zero_le_mult_iff)
  with diff show ?thesis by linarith
qed

lemma lstsq_minimises_sse:
  assumes len: "length xs = length ys"
    and det: "0 < real (length xs) * sum_list (map (\<lambda>x. x * x) xs) - sum_list xs * sum_list xs"
  shows "sse (lstsq_slope xs ys) (lstsq_intercept xs ys) xs ys \<le> sse a b xs ys"
proof -
  define n where "n = real (length xs)"
  define sx where "sx = sum_list xs"
  define sy where "sy = sum_list ys"
  define sxx where "sxx = sum_list (map (\<lambda>x. x * x) xs)"
  define sxy where "sxy = sum_list (map2 (*) xs ys)"
  define a0 where "a0 = lstsq_slope xs ys"
  define b0 where "b0 = lstsq_intercept xs ys"
  have D: "0 < n * sxx - sx * sx"
    using det by (simp add: n_def sxx_def sx_def)
  have n: "0 < n"
  proof (cases xs)
    case Nil
    with det show ?thesis by simp
  next
    case (Cons x xs')
    then show ?thesis by (simp add: n_def)
  qed
  have a0: "a0 = (n * sxy - sx * sy) / (n * sxx - sx * sx)"
    by (simp add: a0_def lstsq_slope_def Let_def n_def sx_def sy_def sxx_def sxy_def)
  have b0: "b0 = (sy - a0 * sx) / n"
    by (simp add: b0_def a0_def lstsq_intercept_def n_def sx_def sy_def)
  have e2: "a0 * sx + n * b0 = sy"
    using n by (simp add: b0)
  have slope_eq: "a0 * (n * sxx - sx * sx) = n * sxy - sx * sy"
    using D by (simp add: a0)
  have "n * (a0 * sxx + b0 * sx) = a0 * (n * sxx - sx * sx) + (a0 * sx + n * b0) * sx"
    by (simp add: algebra_simps)
  also have "\<dots> = n * sxy"
    unfolding slope_eq e2 by simp
  finally have e1: "a0 * sxx + b0 * sx = sxy"
    using n by simp
  from D have d: "0 \<le> n * sxx - sx * sx" by simp
  show ?thesis
    unfolding sse_expand [OF len]
    using quadratic_minimum [OF e1 e2 n d]
    by (simp add: a0_def b0_def n_def sx_def sy_def sxx_def sxy_def)
qed

lemma trends_loop_other:
  "c \<notin> fst ` set cols \<Longrightarrow> trends_loop xs cols acc c = acc c"
  by (induction xs cols acc rule: trends_loop.induct) (auto simp: Let_def)

lemma trends_loop_entry:
  assumes "distinct (map fst cols)" and "(c, cells) \<in> set cols"
  shows "trends_loop xs cols acc c =
     (if 2 \<le> length (dropna cells)
      then Some \<lparr>trend = (if float_gt (polyfit_slope xs cells) 0
                          then ''increasing'' else ''decreasing''),
                 slope = polyfit_slope xs cells\<rparr>
      else acc c)"
  using assms
proof (induction xs cols acc rule: trends_loop.induct)
  case (1 xs acc)
  then show ?case by simp
next
  case (2 xs column cells' cols acc)
  show ?case
  proof (cases "column = c")
    case True
    with 2 have "cells' = cells" and "c \<notin> fst ` set cols"
      by (auto simp: image_iff)
    then show ?thesis
      using True by (simp add: trends_loop_other Let_def)
  next
    case False
    with 2 show ?thesis by (auto simp: Let_def)
  qed
qed

lemma keys_fold_distinct:
  "distinct acc \<Longrightarrow>
   distinct (fold (\<lambda>k acc. if k \<in> set acc then acc else acc @ [k]) ks acc)"
  by (induction ks arbitrary: acc) simp_all

lemma keys_fold_set:
  "set (fold (\<lambda>k acc. if k \<in> set acc then acc else acc @ [k]) ks acc) = set ks \<union> set acc"
  by (induction ks arbitrary: acc) auto

lemma distinct_keys_in_order: "distinct (keys_in_order rows)"
  by (simp add: keys_in_order_def keys_fold_distinct)

lemma set_keys_in_order: "set (keys_in_order rows) = (\<Union>row \<in> set rows. fst ` set row)"
  by (simp add: keys_in_order_def keys_fold_set)

lemma DataFrame_columns_distinct: "distinct (map fst (data (DataFrame rows)))"
  by (simp add: DataFrame_def comp_def distinct_keys_in_order)

lemma DataFrame_column:
  assumes "c \<in> set (keys_in_order rows)"
  shows "(c, map (\<lambda>row. map_of row c) rows) \<in> set (data (DataFrame rows))"
  using assms by (auto simp: DataFrame_def)

lemma polyfit_slope_gt:
  "float_gt (polyfit_slope xs (map Some ys)) 0 \<longleftrightarrow> lstsq_slope xs ys > 0"
  by (simp add: polyfit_slope_def those_map_Some)

lemma trend_of_complete_column:
  assumes n: "2 \<le> length rows"
    and vals: "map (\<lambda>row. map_of row c) rows = map Some ys"
  defines "xs \<equiv> map real [0..<length rows]"
  shows "\<exists>f. calculate_trends (DataFrame rows) = PerMetric f
     \<and> f c = Some \<lparr>trend = (if lstsq_slope xs ys > 0 then ''increasing'' else ''decreasing''),
                    slope = Some (lstsq_slope xs ys)\<rparr>
     \<and> (\<forall>a b. sse (lstsq_slope xs ys) (lstsq_intercept xs ys) xs ys \<le> sse a b xs ys)"
proof -
  from vals have len: "length ys = length rows"
    by (metis length_map)
  from n obtain r rs where rows: "rows = r # rs"
    by (cases rows) auto
  with vals obtain y where "map_of r c = Some y"
    by (cases ys) auto
  then have "c \<in> fst ` set r"
    by (metis domI dom_map_of_conv_image_fst)
  then have "c \<in> set (keys_in_order rows)"
    by (auto simp: set_keys_in_order rows)
  from DataFrame_column [OF this] vals
  have col: "(c, map Some ys) \<in> set (data (DataFrame rows))" by simp
  have drop: "length (dropna (map Some ys)) = length ys"
    by (simp add: dropna_def)
  have il: "index_len (DataFrame rows) = length rows"
    by (simp add: DataFrame_def)
  have "trends_loop xs (data (DataFrame rows)) Map.empty c =
      Some \<lparr>trend = (if lstsq_slope xs ys > 0 then ''increasing'' else ''decreasing''),
            slope = Some (lstsq_slope xs ys)\<rparr>"
    using trends_loop_entry [OF DataFrame_columns_distinct col, of xs Map.empty] n
    by (simp add: drop len polyfit_slope_gt) (simp add: polyfit_slope_def those_map_Some)
  moreover have "calculate_trends (DataFrame rows) =
      PerMetric (trends_loop xs (data (DataFrame rows)) Map.empty)"
    using n by (simp add: calculate_trends_def il xs_def)
  moreover have "\<forall>a b. sse (lstsq_slope xs ys) (lstsq_intercept xs ys) xs ys \<le> sse a b xs ys"
  proof (intro allI)
    fix a b
    have "length xs = length ys" by (simp add: xs_def len)
    moreover have "0 < real (length xs) * sum_list (map (\<lambda>x. x * x) xs) - sum_list xs * sum_list xs"
      using range_determinant_pos [OF n] by (simp add: xs_def)
    ultimately show "sse (lstsq_slope xs ys) (lstsq_intercept xs ys) xs ys \<le> sse a b xs ys"
      by (rule lstsq_minimises_sse)
  qed
  ultimately show ?thesis by blast
qed

text \<open>
  The history of the spec's example: three heart rates 60, 70, 80 give the trend
  \<open>increasing\<close> with slope 10.
\<close>

lemma trend_of_three_point_history: "calculate_trends (DataFrame [[(''hr'', 60)], [(''hr'', 70)], [(''hr'', 80)]])
   = PerMetric [''hr'' \<mapsto> \<lparr>trend = ''increasing'', slope = Some 10\<rparr>]"
  by (simp add: calculate_trends_def DataFrame_def keys_in_order_def dropna_def
        polyfit_slope_def lstsq_slope_def Let_def upt_rec del: not_None_eq)

text \<open>
  Claim C6, at a column with a missing value. In the history below the heart rate is
  present in the first and third snapshot only. The column has two non-missing values,
  so the guard on \<^verbatim>\<open>dropna()\<close> lets it through, but the fit is given the whole column,
  missing cell included: the slope is \<^verbatim>\<open>NaN\<close> and the trend \<open>decreasing\<close>, although
  the two readings rise from 60 to 80. For a column without missing cells the slope is
  the least-squares slope and the trend follows its sign, as the lemmas above show.
\<close>

theorem trend_with_missing_value: "calculate_trends
     (DataFrame [[(''hr'', 60), (''temperature'', 365 / 10)],
                 [(''temperature'', 366 / 10)],
                 [(''hr'', 80), (''temperature'', 367 / 10)]])
   = PerMetric [''hr'' \<mapsto> \<lparr>trend = ''decreasing'', slope = None\<rparr>,
                ''temperature'' \<mapsto> \<lparr>trend = ''increasing'', slope = Some (1 / 10)\<rparr>]"
  by (simp add: calculate_trends_def DataFrame_def keys_in_order_def dropna_def
        polyfit_slope_def lstsq_slope_def Let_def upt_rec del: not_None_eq)

end
